theory Spec2Isabelle
  imports Complex_Main "HOL-Library.Char_ord" "HOL-Library.List_Lexorder" "HOL-Library.Word"
begin

section \<open>Python values and their rendering\<close>

text \<open>
  The listing code of \<^verbatim>\<open>cantools/subparsers/list.py\<close> only prints. Its output is modelled as
  the list of the arguments of the \<^verbatim>\<open>print\<close> calls, in order (the text on standard output is
  each of them followed by a newline), together with the exception that ended the run, if any.
\<close>

datatype error = KeyError | TypeError | ValueError

type_synonym out = "string list \<times> error option"

definition print :: "string \<Rightarrow> out" where
  "print s = ([s], None)"

definition skip :: out where
  "skip = ([], None)"

definition raise :: "error \<Rightarrow> out" where
  "raise e = ([], Some e)"

text \<open>Sequential composition: what follows a raised exception is not run.\<close>

fun seq :: "out \<Rightarrow> out \<Rightarrow> out" where
  "seq (ls, None) (ls', e) = (ls @ ls', e)"
| "seq (ls, Some e) _ = (ls, Some e)"

primrec run :: "out list \<Rightarrow> out" where
  "run [] = skip"
| "run (x # xs) = seq x (run xs)"

text \<open>
  A Python number is an \<^verbatim>\<open>int\<close> or a \<^verbatim>\<open>float\<close>. A finite float is represented by the
  rational number it denotes (comparisons of Python numbers compare these exactly); \<^verbatim>\<open>nan\<close>
  and the infinities are outside the model.
\<close>

datatype number = PInt int | PFloat rat

fun num_val :: "number \<Rightarrow> rat" where
  "num_val (PInt i) = of_int i"
| "num_val (PFloat r) = r"

record named_signal_value =
  nsv_value :: int
  nsv_name :: string
  nsv_comments :: "(string \<times> string) list"

datatype choice = ChoiceStr string | ChoiceNamed named_signal_value

datatype pyval = Num number | Str string | Named named_signal_value

definition digit_char :: "nat \<Rightarrow> char" where
  "digit_char d = ''0123456789abcdef'' ! d"

fun dec_digits :: "nat \<Rightarrow> string" where
  "dec_digits n = (if n < 10 then [digit_char n] else dec_digits (n div 10) @ [digit_char (n mod 10)])"

fun hex_digits :: "nat \<Rightarrow> string" where
  "hex_digits n = (if n < 16 then [digit_char n] else hex_digits (n div 16) @ [digit_char (n mod 16)])"

declare dec_digits.simps [simp del] hex_digits.simps [simp del]

text \<open>\<^verbatim>\<open>str(i)\<close> and \<^verbatim>\<open>format(i, 'x')\<close> of a Python int.\<close>

definition py_str_int :: "int \<Rightarrow> string" where
  "py_str_int i = (if i < 0 then CHR ''-'' # dec_digits (nat (- i)) else dec_digits (nat i))"

definition py_hex_int :: "int \<Rightarrow> string" where
  "py_hex_int i = (if i < 0 then CHR ''-'' # hex_digits (nat (- i)) else hex_digits (nat i))"

definition py_str_bool :: "bool \<Rightarrow> string" where
  "py_str_bool b = (if b then ''True'' else ''False'')"

definition py_str_opt :: "('a \<Rightarrow> string) \<Rightarrow> 'a option \<Rightarrow> string" where
  "py_str_opt f x = (case x of None \<Rightarrow> ''None'' | Some v \<Rightarrow> f v)"

fun join :: "string \<Rightarrow> string list \<Rightarrow> string" where
  "join sep [] = []"
| "join sep [x] = x"
| "join sep (x # y # ys) = x @ sep @ join sep (y # ys)"

definition py_str_int_list :: "int list \<Rightarrow> string" where
  "py_str_int_list xs = ''['' @ join '', '' (map py_str_int xs) @ '']''"

text \<open>\<^verbatim>\<open>str(choice)\<close>: a \<^verbatim>\<open>NamedSignalValue\<close> renders as its name.\<close>

fun str_choice :: "choice \<Rightarrow> string" where
  "str_choice (ChoiceStr s) = s"
| "str_choice (ChoiceNamed n) = nsv_name n"

text \<open>\<^verbatim>\<open>s.split(c)\<close> for a one-character separator.\<close>

primrec split :: "char \<Rightarrow> string \<Rightarrow> string list" where
  "split c [] = [[]]"
| "split c (x # xs) =
     (if x = c then [] # split c xs
      else (case split c xs of [] \<Rightarrow> [[x]] | w # ws \<Rightarrow> (x # w) # ws))"

section \<open>The data model read by the listing\<close>

record signal =
  signal_name :: string
  signal_comments :: "(string \<times> string) list option"
  receivers :: "string list"
  is_float :: bool
  is_multiplexer :: bool
  multiplexer_signal :: "string option"
  multiplexer_ids :: "int list option"
  start :: int
  signal_length :: int
  byte_order :: string
  unit :: "string option"
  initial :: "pyval option"
  invalid :: "pyval option"
  is_signed :: "bool option"
  minimum :: "pyval option"
  maximum :: "pyval option"
  offset :: "number option"
  scale :: "number option"
  choices :: "(int \<times> choice) list option"

record e2e_properties =
  category :: "string option"
  data_ids :: "int list option"
  e2e_payload_length :: "int option"

record secoc_properties =
  auth_algorithm_name :: "string option"
  freshness_algorithm_name :: "string option"
  data_id :: "int option"
  auth_tx_bit_length :: "int option"
  freshness_bit_length :: "int option"
  freshness_tx_bit_length :: "int option"
  secoc_payload_length :: "int option"

record autosar_specifics =
  is_nm :: bool
  e2e :: "e2e_properties option"
  is_secured :: bool
  secoc :: "secoc_properties option"

datatype message = Message
  (message_name: string)
  (message_comments: "(string \<times> string) list option")
  (bus_name: "string option")
  (senders: "string list")
  (header_id: "int option")
  (frame_id: int)
  (is_container: bool)
  (message_length: int)
  (is_extended_frame: bool)
  (is_fd: bool)
  (cycle_time: "int option")
  (autosar: "autosar_specifics option")
  (signals: "signal list")
  (contained_messages: "message list option")

record database =
  messages :: "message list"

record args =
  items :: "string list"
  print_all :: bool
  exclude_extended :: bool
  exclude_normal :: bool
  skip_format_specifics :: bool

section \<open>Formatting a value\<close>

text \<open>
  \<^verbatim>\<open>_format_val\<close> (the leading underscore is dropped: an Isabelle name cannot start with
  one). The built-in \<^verbatim>\<open>format(val, spec)\<close> behind the f-string is the parameter \<open>fmt\<close>; it
  raises for a specifier the value's type does not accept.
\<close>

fun is_enum :: "pyval \<Rightarrow> bool" where
  "is_enum (Num _) = False"
| "is_enum (Str _) = True"
| "is_enum (Named _) = True"

definition format_val ::
  "(pyval \<Rightarrow> string \<Rightarrow> error + string) \<Rightarrow> pyval option \<Rightarrow> string \<Rightarrow> string \<Rightarrow> error + string" where
  "format_val fmt val unit_str value_format_specifier =
     (case val of
        None \<Rightarrow> Inr ''None''
      | Some v \<Rightarrow>
          if unit_str = [] \<or> is_enum v then fmt v value_format_specifier
          else (case fmt v value_format_specifier of
                  Inl e \<Rightarrow> Inl e
                | Inr s \<Rightarrow> Inr (s @ '' '' @ unit_str)))"

text \<open>A \<^verbatim>\<open>print\<close> whose f-string calls \<^verbatim>\<open>_format_val\<close>: nothing is printed when that raises.\<close>

definition print_val :: "string \<Rightarrow> error + string \<Rightarrow> out" where
  "print_val prefix r = (case r of Inl e \<Rightarrow> raise e | Inr s \<Rightarrow> print (prefix @ s))"

section \<open>Printing one message\<close>

text \<open>
  Modelled from the spec: \<^verbatim>\<open>Message.get_signal_by_name\<close> is not part of the listing module;
  the spec describes it as a lookup of a signal by its name among the signals of the message
  (names being unique there), failing on a miss; the listing code relies on Python's
  \<^verbatim>\<open>KeyError\<close> for that.
\<close>

definition get_signal_by_name :: "message \<Rightarrow> string \<Rightarrow> error + signal" where
  "get_signal_by_name message n =
     (case find (\<lambda>s. signal_name s = n) (signals message) of
        None \<Rightarrow> Inl KeyError
      | Some s \<Rightarrow> Inr s)"

text \<open>Lines 54 to 64: the identifier and the size of the message.\<close>

definition print_id_and_size :: "message \<Rightarrow> string \<Rightarrow> out" where
  "print_id_and_size message indent =
     (case header_id message of
        None \<Rightarrow> run [
          print (indent @ ''  Frame ID: 0x'' @ py_hex_int (frame_id message)
                 @ '' ('' @ py_str_int (frame_id message) @ '')''),
          (if is_container message
           then print (indent @ ''  Maximum Size: '' @ py_str_int (message_length message) @ '' bytes'')
           else print (indent @ ''  Size: '' @ py_str_int (message_length message) @ '' bytes'')),
          print (indent @ ''  Is extended frame: '' @ py_str_bool (is_extended_frame message)),
          print (indent @ ''  Is CAN-FD frame: '' @ py_str_bool (is_fd message))]
      | Some h \<Rightarrow> run [
          print (indent @ ''  Header ID: 0x'' @ py_hex_int h @ '' ('' @ py_str_int h @ '')''),
          print (indent @ ''  Size: '' @ py_str_int (message_length message) @ '' bytes'')])"

text \<open>Lines 69 to 89: the AUTOSAR specifics.\<close>

definition print_autosar :: "autosar_specifics \<Rightarrow> string \<Rightarrow> out" where
  "print_autosar a indent = run [
     print (indent @ ''  Is network management frame: '' @ py_str_bool (is_nm a)),
     (case e2e a of
        None \<Rightarrow> skip
      | Some e \<Rightarrow> run [
          print (indent @ ''  End-to-end properties:''),
          print (indent @ ''    Category: '' @ py_str_opt id (category e)),
          print (indent @ ''    Data IDs: '' @ py_str_opt py_str_int_list (data_ids e)),
          print (indent @ ''    Protected size: '' @ py_str_opt py_str_int (e2e_payload_length e) @ '' bytes'')]),
     print (indent @ ''  Is secured: '' @ py_str_bool (is_secured a)),
     (case secoc a of
        None \<Rightarrow> skip
      | Some s \<Rightarrow> run [
          print (indent @ ''  Security properties:''),
          print (indent @ ''    Authentication algorithm: '' @ py_str_opt id (auth_algorithm_name s)),
          print (indent @ ''    Freshness algorithm: '' @ py_str_opt id (freshness_algorithm_name s)),
          print (indent @ ''    Data ID: '' @ py_str_opt py_str_int (data_id s)),
          print (indent @ ''    Authentication transmit bits: '' @ py_str_opt py_str_int (auth_tx_bit_length s)),
          print (indent @ ''    Freshness counter size: '' @ py_str_opt py_str_int (freshness_bit_length s) @ '' bits''),
          print (indent @ ''    Freshness counter transmit size: ''
                 @ py_str_opt py_str_int (freshness_tx_bit_length s) @ '' bits''),
          print (indent @ ''    Secured size: '' @ py_str_opt py_str_int (secoc_payload_length s) @ '' bytes'')])]"

text \<open>Lines 120 to 126: the internal type shown for a signal.\<close>

definition signal_type :: "message \<Rightarrow> signal \<Rightarrow> string" where
  "signal_type message signal =
     (if is_float signal then ''Float''
      else if is_multiplexer signal
              \<and> Some (signal_name signal) \<in> set (map multiplexer_signal (signals message))
           then ''Multiplex Selector''
      else ''Integer'')"

text \<open>Lines 139 to 146: the loop collecting the selector values.\<close>

definition selector_value :: "signal \<Rightarrow> int \<Rightarrow> string" where
  "selector_value selector_sig x =
     (case choices selector_sig of
        None \<Rightarrow> py_str_int x
      | Some cs \<Rightarrow>
          (case map_of cs x of
             Some c \<Rightarrow> str_choice c
           | None \<Rightarrow> py_str_int x))"

definition selector_values :: "signal \<Rightarrow> int list option \<Rightarrow> string list" where
  "selector_values selector_sig ids =
     (case ids of None \<Rightarrow> [] | Some xs \<Rightarrow> map (selector_value selector_sig) xs)"

text \<open>Lines 135 to 148.\<close>

definition print_selector :: "message \<Rightarrow> string \<Rightarrow> signal \<Rightarrow> out" where
  "print_selector message indent signal =
     (case multiplexer_signal signal of
        None \<Rightarrow> skip
      | Some sel \<Rightarrow> run [
          print (indent @ ''      Selector signal: '' @ sel),
          (case get_signal_by_name message sel of
             Inl e \<Rightarrow> raise e
           | Inr selector_sig \<Rightarrow>
               print (indent @ ''      Selector values: ''
                      @ join '', '' (selector_values selector_sig (multiplexer_ids signal))))])"

text \<open>
  Lines 168 to 177. The two thresholds are the doubles that \<^verbatim>\<open>1 + 1e-10\<close> and
  \<^verbatim>\<open>1 - 1e-10\<close> evaluate to.
\<close>

definition one_plus_eps :: rat where
  "one_plus_eps = 562949953477607 / 2 ^ 49"

definition one_minus_eps :: rat where
  "one_minus_eps = 562949953365017 / 2 ^ 49"

definition has_offset :: "signal \<Rightarrow> bool" where
  "has_offset signal = (case offset signal of None \<Rightarrow> False | Some x \<Rightarrow> num_val x \<noteq> 0)"

definition has_scale :: "signal \<Rightarrow> bool" where
  "has_scale signal =
     (case scale signal of
        None \<Rightarrow> False
      | Some x \<Rightarrow> num_val x > one_plus_eps \<or> num_val x < one_minus_eps)"

definition print_scaling ::
  "(pyval \<Rightarrow> string \<Rightarrow> error + string) \<Rightarrow> string \<Rightarrow> string \<Rightarrow> string \<Rightarrow> signal \<Rightarrow> out" where
  "print_scaling fmt indent unit_str vfs signal =
     (if has_offset signal \<or> has_scale signal then run [
        print_val (indent @ ''      Offset: '')
          (format_val fmt (Some (Num (case offset signal of None \<Rightarrow> PInt 0 | Some x \<Rightarrow> x))) unit_str vfs),
        print_val (indent @ ''      Scaling factor: '')
          (format_val fmt (Some (Num (case scale signal of None \<Rightarrow> PInt 1 | Some x \<Rightarrow> x))) unit_str vfs)]
      else skip)"

text \<open>Lines 128 to 134: the name, the comments, the receivers and the internal type.\<close>

definition print_signal_head :: "message \<Rightarrow> string \<Rightarrow> signal \<Rightarrow> out" where
  "print_signal_head message indent signal = run [
     print (indent @ ''    '' @ signal_name signal @ '':''),
     (case signal_comments signal of
        None \<Rightarrow> skip
      | Some cs \<Rightarrow>
          run (map (\<lambda>(lang, text). print (indent @ ''      Comment['' @ lang @ '']: '' @ text)) cs)),
     (if receivers signal \<noteq> []
      then print (indent @ ''      Receiving ECUs: '' @ join '', '' (sort (receivers signal)))
      else skip),
     print (indent @ ''      Internal type: '' @ signal_type message signal)]"

text \<open>Lines 150 to 156: the layout, and the unit string used by the lines that follow.\<close>

definition unit_str :: "signal \<Rightarrow> string" where
  "unit_str signal = (case unit signal of None \<Rightarrow> [] | Some u \<Rightarrow> u)"

definition print_layout :: "string \<Rightarrow> signal \<Rightarrow> out" where
  "print_layout indent signal = run [
     print (indent @ ''      Start bit: '' @ py_str_int (start signal)),
     print (indent @ ''      Length: '' @ py_str_int (signal_length signal) @ '' bits''),
     print (indent @ ''      Byte order: '' @ byte_order signal),
     (if unit_str signal \<noteq> [] then print (indent @ ''      Unit: '' @ unit_str signal) else skip)]"

text \<open>Lines 157 to 166: the optional values.\<close>

definition opt_val :: "string \<Rightarrow> pyval option \<Rightarrow> (pyval option \<Rightarrow> error + string) \<Rightarrow> out" where
  "opt_val prefix v f = (case v of None \<Rightarrow> skip | Some _ \<Rightarrow> print_val prefix (f v))"

definition print_values ::
  "(pyval \<Rightarrow> string \<Rightarrow> error + string) \<Rightarrow> string \<Rightarrow> string \<Rightarrow> signal \<Rightarrow> out" where
  "print_values fmt indent vfs signal = run [
     opt_val (indent @ ''      Initial value: '') (initial signal)
       (\<lambda>v. format_val fmt v (unit_str signal) vfs),
     opt_val (indent @ ''      Invalid value: '') (invalid signal)
       (\<lambda>v. format_val fmt v (unit_str signal) vfs),
     (case is_signed signal of
        None \<Rightarrow> skip
      | Some b \<Rightarrow> print (indent @ ''      Is signed: '' @ py_str_bool b)),
     opt_val (indent @ ''      Minimum: '') (minimum signal)
       (\<lambda>v. format_val fmt v (unit_str signal) vfs),
     opt_val (indent @ ''      Maximum: '') (maximum signal)
       (\<lambda>v. format_val fmt v (unit_str signal) vfs)]"

text \<open>Lines 179 to 185: the named values.\<close>

fun print_choice :: "string \<Rightarrow> int \<times> choice \<Rightarrow> out" where
  "print_choice indent (v, c) = run [
     print (indent @ ''        '' @ py_str_int v @ '': '' @ str_choice c),
     (case c of
        ChoiceStr _ \<Rightarrow> skip
      | ChoiceNamed n \<Rightarrow>
          run (map (\<lambda>(lang, description).
                 print (indent @ ''          Comment['' @ lang @ '']: '' @ description))
               (nsv_comments n)))]"

definition print_choices :: "string \<Rightarrow> signal \<Rightarrow> out" where
  "print_choices indent signal =
     (case choices signal of
        None \<Rightarrow> skip
      | Some cs \<Rightarrow>
          if cs = [] then skip
          else run (print (indent @ ''      Named values:'') # map (print_choice indent) cs))"

text \<open>Lines 119 to 185: the body of the loop over the signals of the message.\<close>

definition print_signal ::
  "(pyval \<Rightarrow> string \<Rightarrow> error + string) \<Rightarrow> message \<Rightarrow> string \<Rightarrow> string \<Rightarrow> signal \<Rightarrow> out" where
  "print_signal fmt message indent vfs signal = run [
     print_signal_head message indent signal,
     print_selector message indent signal,
     print_layout indent signal,
     print_values fmt indent vfs signal,
     print_scaling fmt indent (unit_str signal) vfs signal,
     print_choices indent signal]"

text \<open>Lines 42 to 52: the name, the comments, the bus and the senders of the message.\<close>

definition print_head :: "message \<Rightarrow> string \<Rightarrow> out" where
  "print_head message indent = run [
     print (indent @ message_name message @ '':''),
     (case message_comments message of
        None \<Rightarrow> skip
      | Some cs \<Rightarrow>
          run (map (\<lambda>(lang, text). print (indent @ ''  Comment['' @ lang @ '']: '' @ text)) cs)),
     (case bus_name message of
        None \<Rightarrow> skip
      | Some b \<Rightarrow> if b \<noteq> [] then print (indent @ ''  Bus: '' @ b) else skip),
     (if senders message \<noteq> []
      then print (indent @ ''  Sending ECUs: '' @ join '', '' (sort (senders message)))
      else skip)]"

text \<open>Lines 91 to 97: the signal tree.\<close>

definition print_signal_tree :: "(message \<Rightarrow> string) \<Rightarrow> message \<Rightarrow> string \<Rightarrow> out" where
  "print_signal_tree sts message indent =
     (if signals message \<noteq> [] then run [
        print (indent @ ''  Signal tree:''),
        print [],
        run (map (\<lambda>s. print (indent @ ''    '' @ s)) (split (CHR 0x0A) (sts message))),
        print []]
      else skip)"

text \<open>
  \<^verbatim>\<open>_print_message\<close>. \<open>sts\<close> stands for \<^verbatim>\<open>signal_tree_string\<close> of the dump formatter, called
  with a console width of one million. \<^verbatim>\<open>Message.name\<close> is a \<^verbatim>\<open>str\<close>, so the test of line
  103 always holds; a contained message without a header identifier makes the \<^verbatim>\<open>x\<close> format of
  lines 104 and 105 raise. The recursive call of line 112 passes neither the indentation of
  its caller nor its format specifier.
\<close>

fun print_message ::
  "(pyval \<Rightarrow> string \<Rightarrow> error + string) \<Rightarrow> (message \<Rightarrow> string) \<Rightarrow> message \<Rightarrow> string \<Rightarrow> bool \<Rightarrow> string \<Rightarrow> out" where
  "print_message fmt sts (Message nm cmts bus sndrs hid fid cont len ext fd ct aut sigs cms)
       indent print_format_specifics vfs =
     (let message = Message nm cmts bus sndrs hid fid cont len ext fd ct aut sigs cms in
      run [
        print_head message indent,
        print_id_and_size message indent,
        (case ct of
           None \<Rightarrow> skip
         | Some t \<Rightarrow>
             print_val (indent @ ''  Cycle time: '') (format_val fmt (Some (Num (PInt t))) ''ms'' vfs)),
        (case aut of
           None \<Rightarrow> skip
         | Some a \<Rightarrow> if print_format_specifics then print_autosar a indent else skip),
        print_signal_tree sts message indent,
        (case cms of
           None \<Rightarrow> skip
         | Some ms \<Rightarrow> run [
             print (indent @ ''  Potentially contained messages:''),
             print [],
             run (map (\<lambda>contained_message.
                    case header_id contained_message of
                      None \<Rightarrow> raise TypeError
                    | Some h \<Rightarrow>
                        print (indent @ ''    '' @ message_name contained_message
                               @ '' (0x'' @ py_hex_int h @ '')'')) ms),
             print [],
             print (indent @ ''  Potentially contained message details:''),
             run (map (\<lambda>contained_message.
                    print_message fmt sts contained_message ''    '' print_format_specifics []) ms)]),
        (if sigs \<noteq> [] then print (indent @ ''  Signal details:'') else skip),
        run (map (print_signal fmt message indent vfs) sigs)])"

section \<open>Listing the messages of a database\<close>

text \<open>
  Modelled from the spec: \<^verbatim>\<open>Database.get_message_by_name\<close> is not part of the listing module;
  the spec describes a lookup by name (message names being unique within a database) that
  fails on a miss; the listing code catches Python's \<^verbatim>\<open>KeyError\<close> for that.
\<close>

definition get_message_by_name :: "database \<Rightarrow> string \<Rightarrow> error + message" where
  "get_message_by_name can_db n =
     (case find (\<lambda>m. message_name m = n) (messages can_db) of
        None \<Rightarrow> Inl KeyError
      | Some m \<Rightarrow> Inr m)"

text \<open>The loop of lines 265 to 270, and again of lines 278 to 284.\<close>

primrec collect_names :: "args \<Rightarrow> message list \<Rightarrow> string list \<Rightarrow> string list" where
  "collect_names a [] message_names = message_names"
| "collect_names a (message # rest) message_names =
     (if is_extended_frame message \<and> exclude_extended a then collect_names a rest message_names
      else if \<not> is_extended_frame message \<and> exclude_normal a then collect_names a rest message_names
      else collect_names a rest (message_names @ [message_name message]))"

definition not_found_notice :: "string \<Rightarrow> string" where
  "not_found_notice n =
     ''No message named '' @ [CHR 0x22] @ n @ [CHR 0x22] @ '' has been found in input file.''"

definition do_list_messages ::
  "(pyval \<Rightarrow> string \<Rightarrow> error + string) \<Rightarrow> (message \<Rightarrow> string) \<Rightarrow> database \<Rightarrow> args \<Rightarrow> string \<Rightarrow> out" where
  "do_list_messages fmt sts can_db a values_format_specifier =
     (let message_names =
            (if print_all a then sort (collect_names a (messages can_db) (items a)) else items a);
          print_format_specifics = \<not> skip_format_specifics a
      in if message_names = []
         then run (map print (sort (collect_names a (messages can_db) [])))
         else run (map (\<lambda>n.
                     case get_message_by_name can_db n of
                       Inl e \<Rightarrow> print (not_found_notice n)
                     | Inr message \<Rightarrow>
                         print_message fmt sts message [] print_format_specifics values_format_specifier)
                   message_names))"

section \<open>Example data\<close>

text \<open>
  A formatter for the examples: it renders ints, strings and named values under the empty
  format specifier and refuses everything else.
\<close>

definition format_plain :: "pyval \<Rightarrow> string \<Rightarrow> error + string" where
  "format_plain v spec =
     (if spec \<noteq> [] then Inl ValueError
      else (case v of
              Num (PInt i) \<Rightarrow> Inr (py_str_int i)
            | Num (PFloat r) \<Rightarrow> Inl ValueError
            | Str s \<Rightarrow> Inr s
            | Named n \<Rightarrow> Inr (nsv_name n)))"

definition example_selector :: signal where
  "example_selector = \<lparr>
     signal_name = ''Mode'', signal_comments = None, receivers = [],
     is_float = False, is_multiplexer = True,
     multiplexer_signal = None, multiplexer_ids = None,
     start = 0, signal_length = 2, byte_order = ''little_endian'', unit = None,
     initial = None, invalid = None, is_signed = Some False,
     minimum = None, maximum = None, offset = Some (PInt 0), scale = Some (PInt 1),
     choices = Some [(0, ChoiceStr ''Off''),
                     (1, ChoiceNamed \<lparr>nsv_value = 1, nsv_name = ''On'', nsv_comments = []\<rparr>)]\<rparr>"

definition example_muxed :: signal where
  "example_muxed = \<lparr>
     signal_name = ''Level'', signal_comments = None, receivers = [''ECU2'', ''ECU1''],
     is_float = False, is_multiplexer = False,
     multiplexer_signal = Some ''Mode'', multiplexer_ids = Some [1, 2],
     start = 8, signal_length = 8, byte_order = ''little_endian'', unit = Some ''V'',
     initial = None, invalid = None, is_signed = Some False,
     minimum = None, maximum = None, offset = None, scale = Some (PInt 2),
     choices = None\<rparr>"

definition example_message :: message where
  "example_message =
     Message ''Status'' None None [] None 291 False 8 False False None None
       [example_selector, example_muxed] None"

text \<open>A message whose only signal is flagged as a multiplexer that no signal refers to.\<close>

definition lone_message :: message where
  "lone_message =
     Message ''Lone'' None None [] None 292 False 8 True False None None [example_selector] None"

definition example_contained :: message where
  "example_contained =
     Message ''Inner'' None None [] (Some 10) 0 False 4 False False None None [] None"

definition example_container :: message where
  "example_container =
     Message ''Box'' (Some [(''EN'', ''a container'')]) (Some ''Bus1'') [''ECU1''] None 293 True 64
       False True None None [] (Some [example_contained])"

definition example_database :: database where
  "example_database = \<lparr>messages = [example_message, lone_message]\<rparr>"

definition example_args :: args where
  "example_args = \<lparr>items = [''Lone'', ''Missing'', ''Status''], print_all = False,
     exclude_extended = False, exclude_normal = False, skip_format_specifics = False\<rparr>"

section \<open>The codec\<close>

text \<open>
  The encoder and the decoder are not part of the listing module; the definitions of this
  section follow sections 4.1 to 4.4 of the specification, over the data model above. Numbers
  are exact rationals; the IEEE-754 reading and writing of float signals are the parameters
  \<open>ieee_dec\<close> and \<open>ieee_enc\<close> (bit width and bit pattern to value, bit width and value to bit
  pattern).
\<close>

text \<open>Modelled from the spec: the error kinds of section 7 that concern a message.\<close>

datatype codec_error =
  RangeError | FrameLengthError | OutOfRangeError | InconsistentMultiplexError | EncodeError

type_synonym byte = "8 word"

subsection \<open>BitView\<close>

text \<open>
  Modelled from the spec: BitView, a byte buffer read and written bit by bit. Bit \<open>i\<close> of the
  buffer is bit \<open>i mod 8\<close> of byte \<open>i div 8\<close>, bit 0 being the least significant bit of a
  byte and bit 7 the most significant, under both conventions.
\<close>

definition get_bit :: "byte list \<Rightarrow> nat \<Rightarrow> bool" where
  "get_bit buf i = bit (buf ! (i div 8)) (i mod 8)"

text \<open>Modelled from the spec: setting or clearing one bit of the buffer.\<close>

definition put_bit :: "byte list \<Rightarrow> nat \<Rightarrow> bool \<Rightarrow> byte list" where
  "put_bit buf i b =
     buf[i div 8 := (if b then set_bit (i mod 8) (buf ! (i div 8))
                     else unset_bit (i mod 8) (buf ! (i div 8)))]"

text \<open>
  Modelled from the spec: the big-endian traversal starts at the most significant bit of the
  field; the bit index decreases by 1 until a byte boundary, then wraps to bit 7 of the next
  byte.
\<close>

definition be_next :: "nat \<Rightarrow> nat" where
  "be_next i = (if i mod 8 = 0 then i + 15 else i - 1)"

text \<open>Modelled from the spec: the first \<open>n\<close> bit addresses of the big-endian traversal.\<close>

primrec be_traversal :: "nat \<Rightarrow> nat \<Rightarrow> nat list" where
  "be_traversal i 0 = []"
| "be_traversal i (Suc n) = i # be_traversal (be_next i) n"


text \<open>
  Modelled from the spec: the bit addresses of a field, least significant bit first. Under the
  little-endian convention \<open>start\<close> is the least significant bit and the field extends towards
  higher indices; under the big-endian one \<open>start\<close> is the most significant bit.
\<close>

definition field_bits :: "string \<Rightarrow> nat \<Rightarrow> nat \<Rightarrow> nat list" where
  "field_bits order start_bit n =
     (if order = ''big_endian'' then rev (be_traversal start_bit n)
      else [start_bit ..< start_bit + n])"

text \<open>Modelled from the spec: the unsigned integer that a sequence of bits denotes.\<close>

definition nat_of_bits :: "bool list \<Rightarrow> nat" where
  "nat_of_bits bs = horner_sum of_bool 2 bs"

text \<open>Modelled from the spec: the \<open>n\<close> low bits of a value.\<close>

definition bits_of :: "nat \<Rightarrow> nat \<Rightarrow> bool list" where
  "bits_of n v = map (bit v) [0 ..< n]"

text \<open>Modelled from the spec: writing bits at the given addresses, one after the other.\<close>

primrec write_bits :: "byte list \<Rightarrow> nat list \<Rightarrow> bool list \<Rightarrow> byte list" where
  "write_bits buf [] bs = buf"
| "write_bits buf (i # is) bs =
     (case bs of [] \<Rightarrow> buf | b # bs' \<Rightarrow> write_bits (put_bit buf i b) is bs')"

text \<open>
  Modelled from the spec: \<^verbatim>\<open>extract\<close> reads the \<open>n\<close> bits of a field as an unsigned integer; an
  addressed bit outside the buffer is a \<^verbatim>\<open>RangeError\<close>.
\<close>

definition extract_bits :: "byte list \<Rightarrow> nat \<Rightarrow> nat \<Rightarrow> string \<Rightarrow> codec_error + nat" where
  "extract_bits buf start_bit n order =
     (if \<forall>i \<in> set (field_bits order start_bit n). i < 8 * length buf
      then Inr (nat_of_bits (map (get_bit buf) (field_bits order start_bit n)))
      else Inl RangeError)"


subsection \<open>SignalCodec\<close>

text \<open>
  Modelled from the spec: a physical value is a number, a named choice (its raw value and its
  label) or the marker of an invalid value.
\<close>

datatype physical = Numeric rat | NamedChoice int string | InvalidMarker

text \<open>
  Modelled from the spec: the scale of a signal (physical = raw * scale + offset); the data
  model has it optional, and an unset scale is 1, as the listing shows it.
\<close>

definition sig_scale :: "signal \<Rightarrow> rat" where
  "sig_scale s = (case scale s of None \<Rightarrow> 1 | Some x \<Rightarrow> num_val x)"

text \<open>Modelled from the spec: the offset of a signal; an unset offset is 0.\<close>

definition sig_offset :: "signal \<Rightarrow> rat" where
  "sig_offset s = (case offset s of None \<Rightarrow> 0 | Some x \<Rightarrow> num_val x)"


text \<open>Modelled from the spec: the choices of a signal, raw integer to named value; none when unset.\<close>

definition sig_choices :: "signal \<Rightarrow> (int \<times> choice) list" where
  "sig_choices s = (case choices s of None \<Rightarrow> [] | Some cs \<Rightarrow> cs)"

text \<open>
  Modelled from the spec: a configured minimum, maximum or invalid sentinel, as the number it
  is; a value that is not a number configures nothing.
\<close>

fun bound_of :: "pyval option \<Rightarrow> rat option" where
  "bound_of (Some (Num x)) = Some (num_val x)"
| "bound_of _ = None"

text \<open>
  Modelled from the spec: decoding steps 1 and 3; the raw pattern of a signed signal that is
  not a float is read as two's complement, any other as an unsigned integer.
\<close>

definition reinterpret :: "signal \<Rightarrow> nat \<Rightarrow> int" where
  "reinterpret s raw =
     (if is_signed s = Some True \<and> \<not> is_float s \<and> 2 ^ (nat (signal_length s) - 1) \<le> raw
      then int raw - 2 ^ nat (signal_length s)
      else int raw)"

text \<open>
  Modelled from the spec: \<^verbatim>\<open>decode_raw\<close>; the value before scaling is the reinterpreted
  integer, or the IEEE-754 reading of a float signal (step 2); if it equals the configured
  invalid sentinel the result is the marker (step 4); a choice for the raw integer takes
  precedence over scaling (step 6); otherwise the result is the value times the scale plus the
  offset (step 5). The flags \<open>decode_choices\<close> and \<open>scaling\<close> switch off the last two.
\<close>

definition decode_raw ::
  "(nat \<Rightarrow> nat \<Rightarrow> rat) \<Rightarrow> signal \<Rightarrow> bool \<Rightarrow> bool \<Rightarrow> nat \<Rightarrow> physical" where
  "decode_raw ieee_dec s decode_choices scaling raw =
     (let x = (if is_float s then ieee_dec (nat (signal_length s)) raw
               else of_int (reinterpret s raw))
      in if bound_of (invalid s) = Some x then InvalidMarker
         else (case (if decode_choices then map_of (sig_choices s) (reinterpret s raw) else None) of
                 Some c \<Rightarrow> NamedChoice (reinterpret s raw) (str_choice c)
               | None \<Rightarrow>
                   if scaling \<and> \<not> (sig_scale s = 1 \<and> sig_offset s = 0)
                   then Numeric (x * sig_scale s + sig_offset s)
                   else Numeric x))"

text \<open>Modelled from the spec: in lenient mode a value is clamped to the nearest bound.\<close>

definition clamp :: "signal \<Rightarrow> rat \<Rightarrow> rat" where
  "clamp s v =
     (let v' = (case bound_of (minimum s) of None \<Rightarrow> v | Some lo \<Rightarrow> max lo v)
      in (case bound_of (maximum s) of None \<Rightarrow> v' | Some hi \<Rightarrow> min hi v'))"

text \<open>Modelled from the spec: the bounds check against the minimum and the maximum that are set.\<close>

definition out_of_bounds :: "signal \<Rightarrow> rat \<Rightarrow> bool" where
  "out_of_bounds s v =
     ((case bound_of (minimum s) of None \<Rightarrow> False | Some lo \<Rightarrow> v < lo)
      \<or> (case bound_of (maximum s) of None \<Rightarrow> False | Some hi \<Rightarrow> hi < v))"

text \<open>
  Modelled from the spec: the result is masked to the length of the signal, which packs a
  negative value as two's complement.
\<close>

definition mask :: "signal \<Rightarrow> int \<Rightarrow> nat" where
  "mask s r = nat (r mod 2 ^ nat (signal_length s))"

text \<open>
  Modelled from the spec: \<^verbatim>\<open>encode_physical\<close>; a value that matches a name in the choices
  encodes as the key of that name; any other number as \<open>round ((value - offset) / scale)\<close>, or
  as its IEEE-754 pattern for a float signal. A number outside the configured bounds fails
  in strict mode and is clamped otherwise. The result is masked to the length of the signal,
  which packs a negative value as two's complement. The spec does not say how a named value
  without a matching name, the invalid marker or a scale of zero are encoded; they are
  refused here.
\<close>

definition encode_physical ::
  "(nat \<Rightarrow> rat \<Rightarrow> nat) \<Rightarrow> signal \<Rightarrow> bool \<Rightarrow> physical \<Rightarrow> codec_error + nat" where
  "encode_physical ieee_enc s strict value =
     (case value of
        NamedChoice r label \<Rightarrow>
          (case find (\<lambda>(k, c). str_choice c = label) (sig_choices s) of
             Some (k, c) \<Rightarrow> Inr (mask s k)
           | None \<Rightarrow> Inl EncodeError)
      | Numeric v \<Rightarrow>
          if out_of_bounds s v \<and> strict then Inl OutOfRangeError
          else if is_float s then Inr (mask s (int (ieee_enc (nat (signal_length s)) (clamp s v))))
          else if sig_scale s = 0 then Inl EncodeError
          else Inr (mask s (round ((clamp s v - sig_offset s) / sig_scale s)))
      | InvalidMarker \<Rightarrow> Inl EncodeError)"

subsection \<open>MultiplexResolver\<close>

text \<open>
  Modelled from the spec: the chain of selector constraints of a signal holds when the raw
  value observed for its selector is one of its \<^verbatim>\<open>multiplexer_ids\<close> and the chain of the
  selector holds in turn. \<open>raws\<close> gives the raw values observed for the selectors. The first
  argument bounds the length of the chain by the number of signals: a longer chain visits a
  signal twice, and such a circular chain is taken not to hold.
\<close>

fun chain_holds :: "nat \<Rightarrow> signal list \<Rightarrow> (string \<Rightarrow> nat option) \<Rightarrow> signal \<Rightarrow> bool" where
  "chain_holds n sigs raws s =
     (case multiplexer_signal s of
        None \<Rightarrow> True
      | Some sel \<Rightarrow>
          (case n of
             0 \<Rightarrow> False
           | Suc n' \<Rightarrow>
               (case (raws sel, find (\<lambda>x. signal_name x = sel) sigs) of
                  (Some r, Some m) \<Rightarrow>
                    int r \<in> set (case multiplexer_ids s of None \<Rightarrow> [] | Some ids \<Rightarrow> ids)
                    \<and> chain_holds n' sigs raws m
                | _ \<Rightarrow> False)))"

declare chain_holds.simps [simp del]

text \<open>
  The selector that the chain of a signal leads to next, when the constraint of the signal
  holds, and the chains that end at a signal without a selector; both serve to show that the
  bound on the length of the chain cuts no chain that holds.
\<close>

definition parent :: "signal list \<Rightarrow> (string \<Rightarrow> nat option) \<Rightarrow> signal \<Rightarrow> signal option" where
  "parent sigs raws s =
     (case multiplexer_signal s of
        None \<Rightarrow> None
      | Some sel \<Rightarrow>
          (case (raws sel, find (\<lambda>x. signal_name x = sel) sigs) of
             (Some r, Some m) \<Rightarrow>
               if int r \<in> set (case multiplexer_ids s of None \<Rightarrow> [] | Some ids \<Rightarrow> ids)
               then Some m else None
           | _ \<Rightarrow> None))"

primrec is_path :: "signal list \<Rightarrow> (string \<Rightarrow> nat option) \<Rightarrow> signal \<Rightarrow> signal list \<Rightarrow> bool" where
  "is_path sigs raws s [] = (multiplexer_signal s = None)"
| "is_path sigs raws s (p # ps) = (parent sigs raws s = Some p \<and> is_path sigs raws p ps)"

text \<open>
  Modelled from the spec: the signals without a selector and the signals that are multiplexers
  are always present (step 1); any other signal is present when its chain holds (step 2).
\<close>

definition selected :: "signal list \<Rightarrow> (string \<Rightarrow> nat option) \<Rightarrow> signal \<Rightarrow> bool" where
  "selected sigs raws s =
     (multiplexer_signal s = None \<or> is_multiplexer s \<or> chain_holds (length sigs) sigs raws s)"

subsection \<open>MessageCodec\<close>

text \<open>The results of a list of steps, or the first error among them.\<close>

primrec collect :: "('e + 'a) list \<Rightarrow> 'e + 'a list" where
  "collect [] = Inr []"
| "collect (x # xs) =
     (case x of
        Inl e \<Rightarrow> Inl e
      | Inr v \<Rightarrow> (case collect xs of Inl e \<Rightarrow> Inl e | Inr vs \<Rightarrow> Inr (v # vs)))"

text \<open>
  Modelled from the spec: the raw value of a signal is extracted at its start, length and byte
  order; a negative start or length addresses no bit of the buffer.
\<close>

definition extract_signal :: "byte list \<Rightarrow> signal \<Rightarrow> codec_error + nat" where
  "extract_signal buf s =
     (if start s < 0 \<or> signal_length s < 0 then Inl RangeError
      else extract_bits buf (nat (start s)) (nat (signal_length s)) (byte_order s))"


text \<open>
  Modelled from the spec: the state of the MultiplexResolver when decoding, the raw values
  observed in the payload for the multiplexer signals.
\<close>

definition observed_raws :: "signal list \<Rightarrow> byte list \<Rightarrow> string \<Rightarrow> nat option" where
  "observed_raws sigs buf n =
     (case find (\<lambda>s. is_multiplexer s \<and> signal_name s = n) sigs of
        None \<Rightarrow> None
      | Some s \<Rightarrow> (case extract_signal buf s of Inl e \<Rightarrow> None | Inr raw \<Rightarrow> Some raw))"

text \<open>
  Modelled from the spec: \<^verbatim>\<open>MessageCodec.decode\<close>; the payload must have the length of the
  message, unless truncated frames are allowed, in which case a shorter payload is padded with
  zero bytes; every selected signal is extracted and decoded.
\<close>

definition decode_fields ::
  "(nat \<Rightarrow> nat \<Rightarrow> rat) \<Rightarrow> message \<Rightarrow> byte list \<Rightarrow> bool \<Rightarrow> bool \<Rightarrow> bool
     \<Rightarrow> codec_error + (string \<times> physical) list" where
  "decode_fields ieee_dec message payload decode_choices scaling allow_truncated =
     (if int (length payload) = message_length message
         \<or> (allow_truncated \<and> int (length payload) < message_length message)
      then
        (let buf = payload @ replicate (nat (message_length message) - length payload) 0;
             sigs = signals message;
             present = filter (selected sigs (observed_raws sigs buf)) sigs
         in collect (map (\<lambda>s. case extract_signal buf s of
                                 Inl e \<Rightarrow> Inl e
                               | Inr raw \<Rightarrow>
                                   Inr (signal_name s,
                                        decode_raw ieee_dec s decode_choices scaling raw))
                        present))
      else Inl FrameLengthError)"










text \<open>An eight-bit unsigned signal with a scale of 2, alone in a message of one byte.\<close>

definition even_signal :: signal where
  "even_signal = \<lparr>
     signal_name = ''Even'', signal_comments = None, receivers = [],
     is_float = False, is_multiplexer = False,
     multiplexer_signal = None, multiplexer_ids = None,
     start = 0, signal_length = 8, byte_order = ''little_endian'', unit = None,
     initial = None, invalid = None, is_signed = Some False,
     minimum = None, maximum = None, offset = Some (PInt 0), scale = Some (PInt 2),
     choices = None\<rparr>"


text \<open>Stand-ins for the IEEE-754 parameters in examples without float signals.\<close>

definition no_ieee_dec :: "nat \<Rightarrow> nat \<Rightarrow> rat" where
  "no_ieee_dec n raw = 0"

definition no_ieee_enc :: "nat \<Rightarrow> rat \<Rightarrow> nat" where
  "no_ieee_enc n v = 0"


section \<open>Facts about sequencing\<close>

lemma snd_print [simp]: "snd (print s) = None" and fst_print [simp]: "fst (print s) = [s]"
  by (simp_all add: print_def)

lemma snd_skip [simp]: "snd skip = None" and fst_skip [simp]: "fst skip = []"
  by (simp_all add: skip_def)

lemma seq_ok: "snd a = None \<Longrightarrow> seq a b = (fst a @ fst b, snd b)"
  by (cases a; cases b) simp

lemma seq_err: "snd a = Some e \<Longrightarrow> seq a b = a"
  by (cases a; cases b) simp

lemma seq_pair: "seq (ls, None) b = (ls @ fst b, snd b)"
  by (cases b) simp

lemma fst_seq: "snd a = None \<Longrightarrow> fst (seq a b) = fst a @ fst b"
  by (simp add: seq_ok)

lemma snd_seq_None: "snd (seq a b) = None \<longleftrightarrow> snd a = None \<and> snd b = None"
  by (cases a; cases b; cases "snd a") auto

lemma snd_run_None: "snd (run bs) = None \<longleftrightarrow> (\<forall>b \<in> set bs. snd b = None)"
  by (induction bs) (auto simp: snd_seq_None)

lemma fst_run_ok: "snd (run bs) = None \<Longrightarrow> fst (run bs) = concat (map fst bs)"
  by (induction bs) (auto simp: snd_seq_None seq_ok)

lemma run_prints: "run (map (\<lambda>x. print (f x)) xs) = (map f xs, None)"
  by (induction xs) (auto simp: skip_def print_def)

lemma comment_lines:
  "run (map (\<lambda>(lang, text). print (f lang text)) cs) = (map (\<lambda>(lang, text). f lang text) cs, None)"
  by (induction cs) (auto simp: skip_def print_def)

lemma comment_lines_pair:
  "run (map (\<lambda>(lang, text). ([f lang text], None)) cs) = (map (\<lambda>(lang, text). f lang text) cs, None)"
  by (induction cs) (auto simp: skip_def)

text \<open>An exception that ends a sequence was raised by one of its members.\<close>

lemma run_error_from: "snd (run bs) = Some e \<Longrightarrow> \<exists>b \<in> set bs. snd b = Some e"
proof (induction bs)
  case Nil
  then show ?case by simp
next
  case (Cons b bs)
  show ?case
  proof (cases "snd b")
    case None
    with Cons show ?thesis by (auto simp: seq_ok)
  next
    case (Some e')
    with Cons show ?thesis by (auto simp: seq_err)
  qed
qed

lemma print_val_Inr: "print_val p (Inr r) = ([p @ r], None)"
  by (simp add: print_val_def print_def)

lemma ex_simps:
  "py_str_int 0 = ''0''" "py_str_int 1 = ''1''" "py_str_int 2 = ''2''" "py_str_int 4 = ''4''"
  "py_str_int 5 = ''5''" "py_str_int 8 = ''8''" "py_str_int 64 = ''64''"
  by (simp_all add: py_str_int_def dec_digits.simps digit_char_def)

lemmas block_defs = print_head_def print_id_and_size_def print_signal_tree_def print_signal_def
  print_signal_head_def print_selector_def print_layout_def print_values_def print_scaling_def
  print_choices_def opt_val_def print_val_def

section \<open>Formatting a value: the claims\<close>

text \<open>
  Claim C9: for every unit string and every format specifier, \<^verbatim>\<open>_format_val\<close> applied to
  \<^verbatim>\<open>None\<close> returns exactly the string \<^verbatim>\<open>None\<close>; neither the unit nor the format specifier is
  used.
\<close>

theorem format_val_of_None: "format_val fmt None u spec = Inr ''None''"
  by (simp add: format_val_def)

text \<open>
  Claim C6: for a value that is not \<^verbatim>\<open>None\<close>, \<^verbatim>\<open>_format_val\<close> returns the value as rendered by
  the format specifier, with nothing appended when the unit is empty or the value is a string
  or a named signal value, and followed by one space and the unit otherwise. The value reaches
  the renderer as the variant it is; an exception of the renderer is passed on.
\<close>

theorem format_val_by_variant:
  "format_val fmt (Some v) u spec =
     (case fmt v spec of
        Inl e \<Rightarrow> Inl e
      | Inr r \<Rightarrow> Inr (if u = [] \<or> (\<exists>s. v = Str s) \<or> (\<exists>n. v = Named n) then r else r @ '' '' @ u))"
  by (cases v) (simp_all add: format_val_def split: sum.splits)

theorem format_val_by_variant_witness:
  "format_val format_plain (Some (Num (PInt 5))) ''m'' [] = Inr ''5 m''
   \<and> format_val format_plain (Some (Str ''IAmAnEnum'')) ''m'' [] = Inr ''IAmAnEnum''
   \<and> format_val format_plain (Some (Num (PInt 5))) [] [] = Inr ''5''"
  using format_val_by_variant [of format_plain "Num (PInt 5)" "''m''" "[]"]
    format_val_by_variant [of format_plain "Str ''IAmAnEnum''" "''m''" "[]"]
    format_val_by_variant [of format_plain "Num (PInt 5)" "[]" "[]"]
  by (simp add: format_plain_def ex_simps)

section \<open>The lines of a message\<close>

lemma print_id_and_size_eq:
  "print_id_and_size m indent =
     ((case header_id m of
         None \<Rightarrow> [indent @ ''  Frame ID: 0x'' @ py_hex_int (frame_id m) @ '' ('' @ py_str_int (frame_id m) @ '')'',
                  indent @ (if is_container m then ''  Maximum Size: '' else ''  Size: '')
                    @ py_str_int (message_length m) @ '' bytes'',
                  indent @ ''  Is extended frame: '' @ py_str_bool (is_extended_frame m),
                  indent @ ''  Is CAN-FD frame: '' @ py_str_bool (is_fd m)]
       | Some h \<Rightarrow> [indent @ ''  Header ID: 0x'' @ py_hex_int h @ '' ('' @ py_str_int h @ '')'',
                    indent @ ''  Size: '' @ py_str_int (message_length m) @ '' bytes'']), None)"
  by (simp add: print_id_and_size_def print_def skip_def split: option.splits)

lemma print_head_ok: "snd (print_head m indent) = None"
  by (simp add: print_head_def snd_seq_None comment_lines split: option.splits)

lemma length_print_head:
  "length (fst (print_head m indent)) =
     1 + (case message_comments m of None \<Rightarrow> 0 | Some cs \<Rightarrow> length cs)
       + (case bus_name m of None \<Rightarrow> 0 | Some b \<Rightarrow> if b = [] then 0 else 1)
       + (if senders m = [] then 0 else 1)"
  by (simp add: print_head_def fst_seq snd_seq_None comment_lines split: option.splits)

lemma print_message_prefix:
  "\<exists>r. fst (print_message fmt sts m indent pfs vfs)
        = fst (print_head m indent) @ fst (print_id_and_size m indent) @ r"
proof (cases m)
  case (Message nm cmts bus sndrs hid fid cont len ext fd ct aut sigs cms)
  have ok: "snd (print_id_and_size m indent) = None"
    by (simp add: print_id_and_size_eq)
  show ?thesis
    unfolding Message print_message.simps Let_def run.simps
    by (simp add: seq_ok print_head_ok ok [unfolded Message])
qed

text \<open>
  Claim C3: the line after the identifier line of a message gives its length. It reads
  \<^verbatim>\<open>Maximum Size: <length> bytes\<close> exactly when the message has no header identifier and is a
  container, and \<^verbatim>\<open>Size: <length> bytes\<close> in every other case, in particular for every message
  with a header identifier. The line stands after the name, the comments, the bus, the senders
  and the identifier.
\<close>

theorem size_line_by_container:
  "let k = 2 + (case message_comments m of None \<Rightarrow> 0 | Some cs \<Rightarrow> length cs)
             + (case bus_name m of None \<Rightarrow> 0 | Some b \<Rightarrow> if b = [] then 0 else 1)
             + (if senders m = [] then 0 else 1);
       out = fst (print_message fmt sts m indent pfs vfs)
   in k < length out \<and>
      out ! k = indent @ (if header_id m = None \<and> is_container m then ''  Maximum Size: '' else ''  Size: '')
                  @ py_str_int (message_length m) @ '' bytes''"
proof -
  obtain r where r: "fst (print_message fmt sts m indent pfs vfs)
        = fst (print_head m indent) @ fst (print_id_and_size m indent) @ r"
    using print_message_prefix by blast
  show ?thesis
    unfolding Let_def r
    by (simp add: nth_append length_print_head print_id_and_size_eq split: option.splits)
qed

theorem size_line_by_container_witness:
  "fst (print_message format_plain (\<lambda>m. []) example_container [] True []) ! 5
     = ''  Maximum Size: 64 bytes''
   \<and> fst (print_message format_plain (\<lambda>m. []) example_message [] True []) ! 2
     = ''  Size: 8 bytes''
   \<and> fst (print_message format_plain (\<lambda>m. []) example_contained ''    '' True []) ! 2
     = ''      Size: 4 bytes''"
  using size_line_by_container [of example_container format_plain "\<lambda>m. []" "[]" True "[]"]
    size_line_by_container [of example_message format_plain "\<lambda>m. []" "[]" True "[]"]
    size_line_by_container [of example_contained format_plain "\<lambda>m. []" "''    ''" True "[]"]
  by (simp add: Let_def example_container_def example_message_def example_contained_def ex_simps
      eval_nat_numeral)

section \<open>The lines of a signal\<close>

lemma print_signal_head_eq:
  "print_signal_head m indent s =
     ([indent @ ''    '' @ signal_name s @ '':'']
      @ (case signal_comments s of
           None \<Rightarrow> []
         | Some cs \<Rightarrow> map (\<lambda>(lang, text). indent @ ''      Comment['' @ lang @ '']: '' @ text) cs)
      @ (if receivers s = [] then []
         else [indent @ ''      Receiving ECUs: '' @ join '', '' (sort (receivers s))])
      @ [indent @ ''      Internal type: '' @ signal_type m s], None)"
  by (simp add: print_signal_head_def seq_pair comment_lines_pair print_def skip_def split: option.splits)

lemma print_signal_prefix:
  "\<exists>r. fst (print_signal fmt m indent vfs s) = fst (print_signal_head m indent s) @ r"
  by (simp add: print_signal_def print_signal_head_eq seq_ok)

lemma print_signal_ok_layout:
  assumes "snd (print_signal fmt m indent vfs s) = None"
  shows "fst (print_signal fmt m indent vfs s)
           = fst (print_signal_head m indent s) @ fst (print_selector m indent s)
             @ fst (print_layout indent s) @ fst (print_values fmt indent vfs s)
             @ fst (print_scaling fmt indent (unit_str s) vfs s) @ fst (print_choices indent s)"
  using fst_run_ok [OF assms [unfolded print_signal_def]] unfolding print_signal_def by simp

text \<open>
  Claim C5, as the code has it: the \<^verbatim>\<open>Internal type\<close> line of a signal, which follows its name,
  its comments and its receivers, reads \<^verbatim>\<open>Float\<close> when the signal is a float;
  \<^verbatim>\<open>Multiplex Selector\<close> when it is not a float, is flagged as a multiplexer and is named as
  the selector of some signal of the message; and \<^verbatim>\<open>Integer\<close> otherwise.
\<close>

theorem internal_type_line_amended:
  "let k = 1 + (case signal_comments s of None \<Rightarrow> 0 | Some cs \<Rightarrow> length cs)
             + (if receivers s = [] then 0 else 1);
       out = fst (print_signal fmt m indent vfs s)
   in k < length out \<and>
      out ! k = indent @ ''      Internal type: ''
                  @ (if is_float s then ''Float''
                     else if is_multiplexer s
                             \<and> (\<exists>x \<in> set (signals m). multiplexer_signal x = Some (signal_name s))
                          then ''Multiplex Selector''
                     else ''Integer'')"
proof -
  obtain r where r: "fst (print_signal fmt m indent vfs s) = fst (print_signal_head m indent s) @ r"
    using print_signal_prefix by blast
  have t: "signal_type m s =
             (if is_float s then ''Float''
              else if is_multiplexer s
                      \<and> (\<exists>x \<in> set (signals m). multiplexer_signal x = Some (signal_name s))
                   then ''Multiplex Selector''
              else ''Integer'')"
    by (auto simp: signal_type_def image_iff)
  show ?thesis
    unfolding Let_def r print_signal_head_eq t
    by (simp add: nth_append split: option.splits)
qed

theorem internal_type_line_amended_witness:
  "fst (print_signal format_plain example_message [] [] example_selector) ! 1
     = ''      Internal type: Multiplex Selector''
   \<and> fst (print_signal format_plain example_message [] [] example_muxed) ! 2
     = ''      Internal type: Integer''"
  using internal_type_line_amended [of example_selector format_plain example_message "[]" "[]"]
    internal_type_line_amended [of example_muxed format_plain example_message "[]" "[]"]
  by (simp add: Let_def example_message_def example_selector_def example_muxed_def numeral_2_eq_2)

text \<open>
  Claim C5 as stated fails: a signal flagged as a multiplexer that is not a float, in a message
  where no signal names it as selector, is shown as \<^verbatim>\<open>Integer\<close>.
\<close>

theorem lone_multiplexer_shown_as_integer:
  "is_multiplexer example_selector \<and> \<not> is_float example_selector
   \<and> fst (print_signal format_plain lone_message [] [] example_selector) ! 1
       = ''      Internal type: Integer''
   \<and> fst (print_signal format_plain lone_message [] [] example_selector) ! 1
       \<noteq> ''      Internal type: Multiplex Selector''"
  by (simp add: print_signal_def print_signal_head_eq seq_ok signal_type_def
      lone_message_def example_selector_def)

lemma get_signal_by_name_Inr:
  "get_signal_by_name m n = Inr ss \<Longrightarrow> ss \<in> set (signals m) \<and> signal_name ss = n"
  by (auto simp: get_signal_by_name_def find_Some_iff split: option.splits)

lemma print_selector_ok:
  assumes "multiplexer_signal s = Some sel" and "get_signal_by_name m sel = Inr ss"
  shows "print_selector m indent s =
           ([indent @ ''      Selector signal: '' @ sel,
             indent @ ''      Selector values: '' @ join '', '' (selector_values ss (multiplexer_ids s))], None)"
  using assms by (simp add: print_selector_def print_def skip_def)

text \<open>
  Claim C4: for a signal with a selector, the selector signal is the signal of the message that
  \<^verbatim>\<open>get_signal_by_name\<close> finds under that name (no frame is decoded), and right after the
  \<^verbatim>\<open>Internal type\<close> line come the \<^verbatim>\<open>Selector signal\<close> line and the \<^verbatim>\<open>Selector values\<close> line. The
  latter joins one value for each entry of the signal's \<^verbatim>\<open>multiplexer_ids\<close> list (none when
  there is no list): the name that the selector's choices give to the entry when they have
  one, and the entry as a plain number otherwise.
\<close>

theorem selector_values_line:
  assumes "multiplexer_signal s = Some sel" and "get_signal_by_name m sel = Inr ss"
  shows "ss \<in> set (signals m) \<and> signal_name ss = sel
       \<and> (\<exists>vals post.
             fst (print_signal fmt m indent vfs s)
               = fst (print_signal_head m indent s)
                 @ [indent @ ''      Selector signal: '' @ sel,
                    indent @ ''      Selector values: '' @ join '', '' vals] @ post
           \<and> length vals = (case multiplexer_ids s of None \<Rightarrow> 0 | Some ids \<Rightarrow> length ids)
           \<and> (\<forall>ids i. multiplexer_ids s = Some ids \<and> i < length ids \<longrightarrow>
                 vals ! i = (case map_of (case choices ss of None \<Rightarrow> [] | Some cs \<Rightarrow> cs) (ids ! i) of
                               Some c \<Rightarrow> str_choice c
                             | None \<Rightarrow> py_str_int (ids ! i))))"
proof -
  let ?vals = "selector_values ss (multiplexer_ids s)"
  have 1: "fst (print_signal fmt m indent vfs s)
             = fst (print_signal_head m indent s)
               @ [indent @ ''      Selector signal: '' @ sel,
                  indent @ ''      Selector values: '' @ join '', '' ?vals]
               @ fst (run [print_layout indent s, print_values fmt indent vfs s,
                           print_scaling fmt indent (unit_str s) vfs s, print_choices indent s])"
    by (simp add: print_signal_def print_signal_head_eq print_selector_ok [OF assms] seq_pair)
  have 2: "length ?vals = (case multiplexer_ids s of None \<Rightarrow> 0 | Some ids \<Rightarrow> length ids)"
    by (simp add: selector_values_def split: option.splits)
  have 3: "\<forall>ids i. multiplexer_ids s = Some ids \<and> i < length ids \<longrightarrow>
                 ?vals ! i = (case map_of (case choices ss of None \<Rightarrow> [] | Some cs \<Rightarrow> cs) (ids ! i) of
                               Some c \<Rightarrow> str_choice c
                             | None \<Rightarrow> py_str_int (ids ! i))"
    by (auto simp: selector_values_def selector_value_def split: option.splits)
  from 1 2 3 get_signal_by_name_Inr [OF assms(2)] show ?thesis
    by blast
qed

theorem selector_values_line_witness:
  "\<exists>post. fst (print_signal format_plain example_message [] [] example_muxed)
     = [''    Level:'', ''      Receiving ECUs: ECU1, ECU2'', ''      Internal type: Integer'',
        ''      Selector signal: Mode'', ''      Selector values: On, 2''] @ post"
proof -
  have a: "multiplexer_signal example_muxed = Some ''Mode''"
    by (simp add: example_muxed_def)
  have b: "get_signal_by_name example_message ''Mode'' = Inr example_selector"
    by (simp add: get_signal_by_name_def example_message_def example_selector_def)
  from selector_values_line [OF a b, of format_plain "[]" "[]"]
  obtain vals post where
    1: "fst (print_signal format_plain example_message [] [] example_muxed)
               = fst (print_signal_head example_message [] example_muxed)
                 @ [[] @ ''      Selector signal: '' @ ''Mode'',
                    [] @ ''      Selector values: '' @ join '', '' vals] @ post"
    and 2: "length vals = (case multiplexer_ids example_muxed of None \<Rightarrow> 0 | Some ids \<Rightarrow> length ids)"
    and 3: "\<forall>ids i. multiplexer_ids example_muxed = Some ids \<and> i < length ids \<longrightarrow>
                 vals ! i = (case map_of (case choices example_selector of None \<Rightarrow> [] | Some cs \<Rightarrow> cs) (ids ! i) of
                               Some c \<Rightarrow> str_choice c
                             | None \<Rightarrow> py_str_int (ids ! i))"
    by blast
  have ids: "multiplexer_ids example_muxed = Some [1, 2]"
    by (simp add: example_muxed_def)
  from 2 ids have len: "length vals = 2" by simp
  from 3 ids have "vals ! 0 = ''On''" "vals ! 1 = ''2''"
    by (auto simp: example_selector_def ex_simps)
  with len have vals: "vals = [''On'', ''2'']"
    by (cases vals; cases "tl vals"; cases "tl (tl vals)") auto
  have head: "fst (print_signal_head example_message [] example_muxed)
      = [''    Level:'', ''      Receiving ECUs: ECU1, ECU2'', ''      Internal type: Integer'']"
    by (simp add: print_signal_head_eq signal_type_def example_muxed_def)
  show ?thesis
    unfolding 1 vals head by simp
qed

text \<open>
  Claim C8: the \<^verbatim>\<open>Offset\<close> and \<^verbatim>\<open>Scaling factor\<close> lines of a signal are printed, one after the
  other, exactly when the scaling is not trivial: the offset is set and not zero, or the scale
  is set and lies above \<^verbatim>\<open>1 + 1e-10\<close> or below \<^verbatim>\<open>1 - 1e-10\<close> (as doubles; they are within
  \<^verbatim>\<open>1e-17\<close> of the exact bounds). When printed, an unset offset is shown as 0 and an unset
  scale as 1; with offset 0 and scale 1 nothing is printed. In the lines of a signal that is
  printed without an exception, these lines stand just before the named values.
\<close>

theorem scaling_lines_iff_nontrivial:
  "((\<exists>x. offset s = Some x \<and> num_val x \<noteq> 0)
      \<or> (\<exists>x. scale s = Some x \<and> (num_val x > one_plus_eps \<or> num_val x < one_minus_eps))
     \<longrightarrow> (\<forall>a b. format_val fmt (Some (Num (case offset s of None \<Rightarrow> PInt 0 | Some x \<Rightarrow> x))) u vfs = Inr a
             \<and> format_val fmt (Some (Num (case scale s of None \<Rightarrow> PInt 1 | Some x \<Rightarrow> x))) u vfs = Inr b
          \<longrightarrow> print_scaling fmt indent u vfs s
                = ([indent @ ''      Offset: '' @ a, indent @ ''      Scaling factor: '' @ b], None)))
   \<and> (\<not> ((\<exists>x. offset s = Some x \<and> num_val x \<noteq> 0)
          \<or> (\<exists>x. scale s = Some x \<and> (num_val x > one_plus_eps \<or> num_val x < one_minus_eps)))
     \<longrightarrow> print_scaling fmt indent u vfs s = ([], None))
   \<and> ((\<exists>x y. offset s = Some x \<and> num_val x = 0 \<and> scale s = Some y \<and> num_val y = 1)
     \<longrightarrow> print_scaling fmt indent u vfs s = ([], None))
   \<and> \<bar>one_plus_eps - (1 + 1 / 10 ^ 10)\<bar> < 1 / 10 ^ 17
   \<and> \<bar>one_minus_eps - (1 - 1 / 10 ^ 10)\<bar> < 1 / 10 ^ 17
   \<and> (snd (print_signal fmt m indent vfs s) = None
     \<longrightarrow> (\<exists>pre. fst (print_signal fmt m indent vfs s)
                 = pre @ fst (print_scaling fmt indent (unit_str s) vfs s) @ fst (print_choices indent s)))"
proof -
  have cond: "has_offset s \<or> has_scale s \<longleftrightarrow>
      (\<exists>x. offset s = Some x \<and> num_val x \<noteq> 0)
      \<or> (\<exists>x. scale s = Some x \<and> (num_val x > one_plus_eps \<or> num_val x < one_minus_eps))"
    by (auto simp: has_offset_def has_scale_def split: option.splits)
  have one: "one_minus_eps < 1" "1 < one_plus_eps"
    by (simp_all add: one_minus_eps_def one_plus_eps_def)
  have eps: "\<bar>one_plus_eps - (1 + 1 / 10 ^ 10)\<bar> < 1 / 10 ^ 17"
    "\<bar>one_minus_eps - (1 - 1 / 10 ^ 10)\<bar> < 1 / 10 ^ 17"
    by (simp_all add: one_minus_eps_def one_plus_eps_def)
  have A: "(\<exists>x. offset s = Some x \<and> num_val x \<noteq> 0)
      \<or> (\<exists>x. scale s = Some x \<and> (num_val x > one_plus_eps \<or> num_val x < one_minus_eps))
     \<longrightarrow> (\<forall>a b. format_val fmt (Some (Num (case offset s of None \<Rightarrow> PInt 0 | Some x \<Rightarrow> x))) u vfs = Inr a
             \<and> format_val fmt (Some (Num (case scale s of None \<Rightarrow> PInt 1 | Some x \<Rightarrow> x))) u vfs = Inr b
          \<longrightarrow> print_scaling fmt indent u vfs s
                = ([indent @ ''      Offset: '' @ a, indent @ ''      Scaling factor: '' @ b], None))"
    unfolding cond [symmetric] by (simp add: print_scaling_def print_val_Inr skip_def)
  have B: "\<not> ((\<exists>x. offset s = Some x \<and> num_val x \<noteq> 0)
          \<or> (\<exists>x. scale s = Some x \<and> (num_val x > one_plus_eps \<or> num_val x < one_minus_eps)))
     \<longrightarrow> print_scaling fmt indent u vfs s = ([], None)"
    unfolding cond [symmetric] by (simp add: print_scaling_def skip_def)
  have C: "(\<exists>x y. offset s = Some x \<and> num_val x = 0 \<and> scale s = Some y \<and> num_val y = 1)
     \<longrightarrow> print_scaling fmt indent u vfs s = ([], None)"
    using one by (auto simp: print_scaling_def skip_def has_offset_def has_scale_def)
  have D: "snd (print_signal fmt m indent vfs s) = None
     \<longrightarrow> (\<exists>pre. fst (print_signal fmt m indent vfs s)
                 = pre @ fst (print_scaling fmt indent (unit_str s) vfs s) @ fst (print_choices indent s))"
  proof
    assume "snd (print_signal fmt m indent vfs s) = None"
    from print_signal_ok_layout [OF this] show "\<exists>pre. fst (print_signal fmt m indent vfs s)
                 = pre @ fst (print_scaling fmt indent (unit_str s) vfs s) @ fst (print_choices indent s)"
      by (metis append.assoc)
  qed
  from A B C D eps show ?thesis by blast
qed

theorem scaling_lines_iff_nontrivial_witness:
  "print_scaling format_plain [] ''V'' [] example_muxed
     = ([''      Offset: 0 V'', ''      Scaling factor: 2 V''], None)
   \<and> print_scaling format_plain [] [] [] example_selector = ([], None)"
proof -
  have 1: "\<exists>x. scale example_muxed = Some x \<and> (num_val x > one_plus_eps \<or> num_val x < one_minus_eps)"
    by (simp add: example_muxed_def one_plus_eps_def)
  have 2: "format_val format_plain (Some (Num (case offset example_muxed of None \<Rightarrow> PInt 0 | Some x \<Rightarrow> x))) ''V'' []
             = Inr ''0 V''"
    "format_val format_plain (Some (Num (case scale example_muxed of None \<Rightarrow> PInt 1 | Some x \<Rightarrow> x))) ''V'' []
             = Inr ''2 V''"
    by (simp_all add: example_muxed_def format_val_def format_plain_def ex_simps)
  have 3: "\<exists>x y. offset example_selector = Some x \<and> num_val x = 0
                \<and> scale example_selector = Some y \<and> num_val y = 1"
    by (simp add: example_selector_def)
  from 1 2 scaling_lines_iff_nontrivial [where s = example_muxed and fmt = format_plain and u = "''V''"
      and vfs = "[]" and indent = "[]" and m = example_message]
  have "print_scaling format_plain [] ''V'' [] example_muxed
     = ([[] @ ''      Offset: '' @ ''0 V'', [] @ ''      Scaling factor: '' @ ''2 V''], None)"
    by blast
  moreover from 3 scaling_lines_iff_nontrivial [where s = example_selector and fmt = format_plain and u = "[]"
      and vfs = "[]" and indent = "[]" and m = example_message]
  have "print_scaling format_plain [] [] [] example_selector = ([], None)"
    by blast
  ultimately show ?thesis by simp
qed

section \<open>Listing the messages: the claims\<close>

lemma collect_names_eq:
  "collect_names a ms acc =
     acc @ map message_name (filter (\<lambda>m. (is_extended_frame m \<longrightarrow> \<not> exclude_extended a)
                                       \<and> (\<not> is_extended_frame m \<longrightarrow> \<not> exclude_normal a)) ms)"
  by (induction ms arbitrary: acc) auto

lemma kept_iff:
  "(\<lambda>m. (is_extended_frame m \<longrightarrow> \<not> exclude_extended a) \<and> (\<not> is_extended_frame m \<longrightarrow> \<not> exclude_normal a))
      = (\<lambda>m. (exclude_extended a \<longrightarrow> \<not> is_extended_frame m) \<and> (exclude_normal a \<longrightarrow> is_extended_frame m))"
  by auto

text \<open>
  Claim C7: with no requested names and \<^verbatim>\<open>print_all\<close> false, \<^verbatim>\<open>_do_list_messages\<close> prints the
  names of the messages of the database in lexicographic order and nothing else, leaving out
  the extended-frame messages when \<^verbatim>\<open>exclude_extended\<close> is set and the others when
  \<^verbatim>\<open>exclude_normal\<close> is set; it raises nothing.
\<close>

theorem names_only_listing:
  assumes "items a = []" and "\<not> print_all a"
  shows "do_list_messages fmt sts can_db a vfs =
           (sort (map message_name
                   (filter (\<lambda>m. (exclude_extended a \<longrightarrow> \<not> is_extended_frame m)
                                \<and> (exclude_normal a \<longrightarrow> is_extended_frame m))
                      (messages can_db))), None)"
  using assms by (simp add: do_list_messages_def collect_names_eq kept_iff run_prints)

theorem names_only_listing_witness:
  "do_list_messages format_plain (\<lambda>m. []) example_database
       \<lparr>items = [], print_all = False, exclude_extended = False, exclude_normal = False,
        skip_format_specifics = False\<rparr> []
     = ([''Lone'', ''Status''], None)
   \<and> do_list_messages format_plain (\<lambda>m. []) example_database
       \<lparr>items = [], print_all = False, exclude_extended = True, exclude_normal = False,
        skip_format_specifics = False\<rparr> []
     = ([''Status''], None)"
  using names_only_listing [of "\<lparr>items = [], print_all = False, exclude_extended = False, exclude_normal = False,
        skip_format_specifics = False\<rparr>" format_plain "\<lambda>m. []" example_database "[]"]
    names_only_listing [of "\<lparr>items = [], print_all = False, exclude_extended = True, exclude_normal = False,
        skip_format_specifics = False\<rparr>" format_plain "\<lambda>m. []" example_database "[]"]
  by (simp add: example_database_def example_message_def lone_message_def)

text \<open>
  Claim C2: when a requested name is not in the database, \<^verbatim>\<open>_do_list_messages\<close> prints the
  notice naming it in its place and goes on. The names worked through include every requested
  name; an exception that ends the listing comes from printing a message that was found,
  never from the miss; and when the found messages print without exception, the listing ends
  normally and its output is, name by name and in order, the notice for a name that is
  missing and the details of the message for a name that is present.
\<close>

theorem missing_name_does_not_abort:
  assumes "n \<in> set (items a)" and "get_message_by_name can_db n = Inl KeyError"
  shows "let names = (if print_all a
                      then sort (items a @ map message_name
                             (filter (\<lambda>m. (exclude_extended a \<longrightarrow> \<not> is_extended_frame m)
                                          \<and> (exclude_normal a \<longrightarrow> is_extended_frame m))
                                (messages can_db)))
                      else items a);
             shown = (\<lambda>n'. case get_message_by_name can_db n' of
                              Inl e \<Rightarrow> ([not_found_notice n'], None)
                            | Inr m' \<Rightarrow> print_message fmt sts m' [] (\<not> skip_format_specifics a) vfs);
             out = do_list_messages fmt sts can_db a vfs
         in set (items a) \<subseteq> set names
          \<and> shown n = ([not_found_notice n], None)
          \<and> (\<forall>e. snd out = Some e \<longrightarrow>
                (\<exists>n' \<in> set names. \<exists>m'. get_message_by_name can_db n' = Inr m'
                   \<and> snd (print_message fmt sts m' [] (\<not> skip_format_specifics a) vfs) = Some e))
          \<and> ((\<forall>n' \<in> set names. snd (shown n') = None)
               \<longrightarrow> snd out = None \<and> fst out = concat (map (\<lambda>n'. fst (shown n')) names))"
proof -
  define names where "names = (if print_all a
                      then sort (items a @ map message_name
                             (filter (\<lambda>m. (exclude_extended a \<longrightarrow> \<not> is_extended_frame m)
                                          \<and> (exclude_normal a \<longrightarrow> is_extended_frame m))
                                (messages can_db)))
                      else items a)"
  define shown where "shown = (\<lambda>n'. case get_message_by_name can_db n' of
                              Inl e \<Rightarrow> ([not_found_notice n'], None)
                            | Inr m' \<Rightarrow> print_message fmt sts m' [] (\<not> skip_format_specifics a) vfs)"
  have names: "names = (if print_all a then sort (collect_names a (messages can_db) (items a)) else items a)"
    by (simp add: names_def collect_names_eq kept_iff)
  have sub: "set (items a) \<subseteq> set names"
    by (auto simp: names_def)
  with assms(1) have "names \<noteq> []" by auto
  then have out: "do_list_messages fmt sts can_db a vfs = run (map shown names)"
    unfolding do_list_messages_def Let_def names [symmetric] shown_def print_def
    by (auto intro!: arg_cong [where f = run] split: sum.splits)
  have miss: "shown n = ([not_found_notice n], None)"
    by (simp add: shown_def assms(2))
  have err: "\<forall>e. snd (run (map shown names)) = Some e \<longrightarrow>
                (\<exists>n' \<in> set names. \<exists>m'. get_message_by_name can_db n' = Inr m'
                   \<and> snd (print_message fmt sts m' [] (\<not> skip_format_specifics a) vfs) = Some e)"
  proof (intro allI impI)
    fix e assume "snd (run (map shown names)) = Some e"
    from run_error_from [OF this] obtain n' where n': "n' \<in> set names" "snd (shown n') = Some e"
      by auto
    then show "\<exists>n' \<in> set names. \<exists>m'. get_message_by_name can_db n' = Inr m'
                   \<and> snd (print_message fmt sts m' [] (\<not> skip_format_specifics a) vfs) = Some e"
      by (cases "get_message_by_name can_db n'") (auto simp: shown_def)
  qed
  have ok: "(\<forall>n' \<in> set names. snd (shown n') = None)
               \<longrightarrow> snd (run (map shown names)) = None
                  \<and> fst (run (map shown names)) = concat (map (\<lambda>n'. fst (shown n')) names)"
  proof
    assume "\<forall>n' \<in> set names. snd (shown n') = None"
    then have "snd (run (map shown names)) = None"
      by (simp add: snd_run_None)
    with fst_run_ok [OF this] show "snd (run (map shown names)) = None
                  \<and> fst (run (map shown names)) = concat (map (\<lambda>n'. fst (shown n')) names)"
      by (simp add: comp_def)
  qed
  from sub miss err ok show ?thesis
    unfolding Let_def out names_def [symmetric] shown_def [symmetric] by blast
qed

theorem missing_name_does_not_abort_witness:
  "do_list_messages format_plain (\<lambda>m. []) example_database example_args []
     = (fst (print_message format_plain (\<lambda>m. []) lone_message [] True [])
          @ [''No message named '' @ [CHR 0x22] @ ''Missing'' @ [CHR 0x22] @ '' has been found in input file.'']
          @ fst (print_message format_plain (\<lambda>m. []) example_message [] True []), None)"
proof -
  have n: "''Missing'' \<in> set (items example_args)"
    by (simp add: example_args_def)
  have g: "get_message_by_name example_database ''Missing'' = Inl KeyError"
    "get_message_by_name example_database ''Lone'' = Inr lone_message"
    "get_message_by_name example_database ''Status'' = Inr example_message"
    by (simp_all add: get_message_by_name_def example_database_def example_message_def lone_message_def)
  have ok: "snd (print_message format_plain (\<lambda>m. []) lone_message [] True []) = None"
    "snd (print_message format_plain (\<lambda>m. []) example_message [] True []) = None"
    by (simp_all add: lone_message_def example_message_def example_selector_def example_muxed_def
        block_defs snd_seq_None get_signal_by_name_def has_offset_def has_scale_def
        one_plus_eps_def one_minus_eps_def format_val_def format_plain_def unit_str_def raise_def
        Let_def)
  from missing_name_does_not_abort [OF n g(1), of format_plain "\<lambda>m. []" "[]"] g ok
  show ?thesis
    by (simp add: Let_def example_args_def not_found_notice_def prod_eq_iff)
qed

section \<open>BitView: reading back what was written\<close>

lemma length_put_bit [simp]: "length (put_bit buf i b) = length buf"
  by (simp add: put_bit_def)


lemma length_write_bits [simp]: "length (write_bits buf is bs) = length buf"
  by (induction "is" arbitrary: buf bs) (auto split: list.splits)




lemma length_bits_of [simp]: "length (bits_of n v) = n"
  by (simp add: bits_of_def)




lemma length_be_traversal [simp]: "length (be_traversal i n) = n"
  by (induction n arbitrary: i) simp_all


lemma length_field_bits [simp]: "length (field_bits order st n) = n"
  by (simp add: field_bits_def)




section \<open>SignalCodec: one signal\<close>










text \<open>The examples of section 8 of the specification.\<close>

lemma spec_bit_order:
  "extract_bits [1, 2] 7 16 ''big_endian'' = Inr 258
   \<and> extract_bits [1, 2] 0 16 ''little_endian'' = Inr 513"
  by code_simp

lemma spec_sign_extension:
  "decode_raw no_ieee_dec (even_signal\<lparr>is_signed := Some True, scale := Some (PInt 1)\<rparr>) True True 255
     = Numeric (- 1)
   \<and> decode_raw no_ieee_dec (even_signal\<lparr>is_signed := Some True, scale := Some (PInt 1)\<rparr>) True True 127
     = Numeric 127"
  by code_simp

lemma spec_scaling:
  "decode_raw no_ieee_dec (even_signal\<lparr>scale := Some (PFloat (1 / 10)), offset := Some (PInt 40)\<rparr>)
       True True 100 = Numeric 50
   \<and> encode_physical no_ieee_enc (even_signal\<lparr>scale := Some (PFloat (1 / 10)), offset := Some (PInt 40)\<rparr>)
       True (Numeric 50) = Inr 100"
  by code_simp

lemma spec_choice_precedence:
  "decode_raw no_ieee_dec (even_signal\<lparr>choices := Some [(2, ChoiceStr ''Error'')]\<rparr>) True True 2
     = NamedChoice 2 ''Error''"
  by code_simp

lemma spec_out_of_range:
  "encode_physical no_ieee_enc (even_signal\<lparr>maximum := Some (Num (PInt 100))\<rparr>) True (Numeric 102)
     = Inl OutOfRangeError
   \<and> encode_physical no_ieee_enc (even_signal\<lparr>maximum := Some (Num (PInt 100))\<rparr>) False (Numeric 102)
     = Inr 50"
  by code_simp

lemma spec_multiplexing:
  "decode_fields no_ieee_dec example_message [1, 5, 0, 0, 0, 0, 0, 0] True True False
     = Inr [(''Mode'', NamedChoice 1 ''On''), (''Level'', Numeric 10)]
   \<and> decode_fields no_ieee_dec example_message [0, 5, 0, 0, 0, 0, 0, 0] True True False
     = Inr [(''Mode'', NamedChoice 0 ''Off'')]"
  by code_simp

section \<open>MultiplexResolver: the bound on the chain\<close>

lemma chain_holds_0: "chain_holds 0 sigs raws s \<longleftrightarrow> multiplexer_signal s = None"
  by (simp add: chain_holds.simps split: option.splits)

lemma chain_holds_Suc:
  "chain_holds (Suc n) sigs raws s \<longleftrightarrow>
     multiplexer_signal s = None \<or> (\<exists>m. parent sigs raws s = Some m \<and> chain_holds n sigs raws m)"
  by (subst chain_holds.simps) (auto simp: parent_def split: option.splits)

lemma parent_root: "multiplexer_signal s = None \<Longrightarrow> parent sigs raws s = None"
  by (simp add: parent_def)

lemma parent_in: "parent sigs raws s = Some m \<Longrightarrow> m \<in> set sigs"
  by (auto simp: parent_def find_Some_iff split: option.splits if_splits)

lemma chain_holds_path:
  "chain_holds n sigs raws s \<longleftrightarrow> (\<exists>ps. is_path sigs raws s ps \<and> length ps \<le> n)"
proof (induction n arbitrary: s)
  case 0
  show ?case
  proof
    assume "chain_holds 0 sigs raws s"
    then have "is_path sigs raws s []" by (simp add: chain_holds_0)
    then show "\<exists>ps. is_path sigs raws s ps \<and> length ps \<le> 0" by fastforce
  next
    assume "\<exists>ps. is_path sigs raws s ps \<and> length ps \<le> 0"
    then show "chain_holds 0 sigs raws s" by (auto simp: chain_holds_0)
  qed
next
  case (Suc n)
  show ?case
  proof
    assume "chain_holds (Suc n) sigs raws s"
    then consider "multiplexer_signal s = None"
      | m where "parent sigs raws s = Some m" "chain_holds n sigs raws m"
      by (auto simp: chain_holds_Suc)
    then show "\<exists>ps. is_path sigs raws s ps \<and> length ps \<le> Suc n"
    proof cases
      case 1
      then have "is_path sigs raws s []" by simp
      then show ?thesis by fastforce
    next
      case 2
      with Suc.IH obtain ps where "is_path sigs raws m ps" "length ps \<le> n" by blast
      with 2 have "is_path sigs raws s (m # ps)" "length (m # ps) \<le> Suc n" by simp_all
      then show ?thesis by blast
    qed
  next
    assume "\<exists>ps. is_path sigs raws s ps \<and> length ps \<le> Suc n"
    then obtain ps where ps: "is_path sigs raws s ps" "length ps \<le> Suc n" by blast
    show "chain_holds (Suc n) sigs raws s"
    proof (cases ps)
      case Nil
      with ps show ?thesis by (simp add: chain_holds_Suc)
    next
      case (Cons m qs)
      with ps have "parent sigs raws s = Some m" "is_path sigs raws m qs" "length qs \<le> n" by simp_all
      with Suc.IH show ?thesis by (auto simp: chain_holds_Suc)
    qed
  qed
qed

lemma is_path_unique:
  "is_path sigs raws s ps \<Longrightarrow> is_path sigs raws s qs \<Longrightarrow> ps = qs"
proof (induction ps arbitrary: s qs)
  case Nil
  then show ?case by (cases qs) (simp_all add: parent_root)
next
  case (Cons p ps)
  then show ?case by (cases qs) (auto simp: parent_root)
qed

lemma is_path_suffix: "is_path sigs raws s (as @ p # bs) \<Longrightarrow> is_path sigs raws p bs"
  by (induction as arbitrary: s) auto

lemma is_path_in: "is_path sigs raws s ps \<Longrightarrow> set ps \<subseteq> set sigs"
  by (induction ps arbitrary: s) (auto dest: parent_in)

lemma is_path_distinct:
  assumes "is_path sigs raws s ps"
  shows "distinct ps"
proof (rule ccontr)
  assume "\<not> distinct ps"
  then obtain as bs cs p where ps: "ps = as @ [p] @ bs @ [p] @ cs"
    using not_distinct_decomp by blast
  from assms have 1: "is_path sigs raws p (bs @ p # cs)"
    unfolding ps using is_path_suffix [of sigs raws s as p "bs @ p # cs"] by simp
  then have 2: "is_path sigs raws p cs"
    by (rule is_path_suffix)
  from is_path_unique [OF 1 2] have "length (bs @ p # cs) = length cs" by simp
  then show False by simp
qed

text \<open>A chain that holds at all holds within the bound given by the number of signals.\<close>

lemma chain_holds_enough:
  assumes "chain_holds n sigs raws s"
  shows "chain_holds (length sigs) sigs raws s"
proof -
  from assms obtain ps where ps: "is_path sigs raws s ps"
    by (auto simp: chain_holds_path)
  have "length ps = card (set ps)"
    using is_path_distinct [OF ps] by (simp add: distinct_card)
  also have "\<dots> \<le> card (set sigs)"
    using is_path_in [OF ps] by (intro card_mono) simp_all
  also have "\<dots> \<le> length sigs"
    by (rule card_length)
  finally show ?thesis
    using ps by (auto simp: chain_holds_path)
qed

section \<open>MessageCodec: the round trip\<close>











end
